theory Spec2Isabelle
  imports Complex_Main "HOL-Library.Multiset"
begin

section \<open>Data model\<close>

text \<open>
  The rental backend keeps two collections that matter here, properties and bookings,
  and an asset store for the property images. Documents are records, the collections are
  lists in insertion order, an ObjectId is a natural number and a Date is its number of
  milliseconds since the epoch. Numbers of the source are JavaScript doubles; the model
  uses integers, on which the arithmetic of the handlers (a difference of two dates, a
  division by one day, a product with a price) is the exact one as long as the values
  stay below 2^53 and the dates are less than 2^26 days apart.
\<close>

type_synonym oid = nat
type_synonym millis = int

text \<open>A string offered where Mongoose expects an ObjectId (a route parameter, a body field).\<close>

datatype id_string = Empty | Malformed | Ref oid

text \<open>\<^verbatim>\<open>req.user\<close>, as the authentication middleware leaves it.\<close>

record user_doc =
  user_id :: oid
  role :: string

text \<open>models/Property (the fields the handlers read or write).\<close>

record property_doc =
  property_id :: oid
  title :: string
  description :: string
  price :: int
  address :: string
  city :: string
  country :: string
  images :: "string list"
  propertyType :: string
  bedrooms :: "int option"
  owner :: oid
  isAvailable :: bool
  views :: int
  createdAt :: millis

text \<open>models/Booking.js, \<^verbatim>\<open>bookingSchema\<close>.\<close>

record booking_doc =
  booking_id :: oid
  property :: oid
  user :: oid
  checkIn :: millis
  checkOut :: millis
  guests :: int
  totalPrice :: int
  status :: string
  paymentStatus :: string
  specialRequests :: "string option"
  cancellationReason :: "string option"
  cancelledAt :: "millis option"

text \<open>
  The local upload directory holds regular files; \<^verbatim>\<open>fs.unlinkSync\<close> removes a regular
  file and throws on a directory.
\<close>

datatype fs_node = RegularFile | Directory

text \<open>What a handler can throw into its \<^verbatim>\<open>catch\<close> block.\<close>

datatype fault =
    CastError
  | ValidationError
  | HookError string
  | TypeError
  | SyntaxError
  | FsError
  | CloudinaryError
  | MongoError

record state =
  properties :: "property_doc list"
  bookings :: "booking_doc list"
  files :: "string \<Rightarrow> fs_node option"
  cloud :: "string set"
  console :: "(string \<times> fault) list"

subsection \<open>Responses\<close>

text \<open>
  A message is a literal of the handler or the \<^verbatim>\<open>message\<close> of the error it caught.
  \<^verbatim>\<open>Math.ceil(count / limit)\<close> can be a number, an infinity or NaN.
\<close>

datatype msg = Literal string | MessageOf fault

datatype jsnum = Fin int | PosInfinity | NegInfinity | NaN

datatype payload =
    NoData
  | Errors "string list"
  | FieldErrors "(string \<times> string) list"
  | BookingData "booking_doc option"
  | PropertyData property_doc
  | PropertiesPage "property_doc list" jsnum int int

record response =
  http_status :: nat
  success :: bool
  message :: "msg option"
  payload :: payload

definition respond :: "nat \<Rightarrow> bool \<Rightarrow> msg option \<Rightarrow> payload \<Rightarrow> response" where
  "respond c ok m d = \<lparr>http_status = c, success = ok, message = m, payload = d\<rparr>"

definition failure :: "nat \<Rightarrow> string \<Rightarrow> response" where
  "failure c m = respond c False (Some (Literal m)) NoData"

text \<open>\<^verbatim>\<open>console.error(label, error)\<close>.\<close>

definition console_error :: "string \<Rightarrow> fault \<Rightarrow> state \<Rightarrow> state" where
  "console_error label e s = s\<lparr>console := console s @ [(label, e)]\<rparr>"

section \<open>Store operations (Mongoose)\<close>

definition Property_findById :: "state \<Rightarrow> id_string \<Rightarrow> fault + property_doc option" where
  "Property_findById s i =
     (case i of
        Ref k \<Rightarrow> Inr (find (\<lambda>p. property_id p = k) (properties s))
      | _ \<Rightarrow> Inl CastError)"

definition Booking_findById :: "state \<Rightarrow> id_string \<Rightarrow> fault + booking_doc option" where
  "Booking_findById s i =
     (case i of
        Ref k \<Rightarrow> Inr (find (\<lambda>b. booking_id b = k) (bookings s))
      | _ \<Rightarrow> Inl CastError)"

definition status_enum :: "string list" where
  "status_enum = [''pending'', ''confirmed'', ''cancelled'', ''completed'']"

definition paymentStatus_enum :: "string list" where
  "paymentStatus_enum = [''pending'', ''paid'', ''refunded'']"

text \<open>\<^verbatim>\<open>maxlength: 500\<close> on an optional string path.\<close>

definition maxlength :: "nat \<Rightarrow> string option \<Rightarrow> bool" where
  "maxlength n v = (case v of None \<Rightarrow> True | Some t \<Rightarrow> length t \<le> n)"

text \<open>The validators of \<^verbatim>\<open>bookingSchema\<close>, after the \<^verbatim>\<open>pre('validate')\<close> hook.\<close>

definition booking_validators :: "booking_doc \<Rightarrow> bool" where
  "booking_validators b =
     (1 \<le> guests b \<and> 0 \<le> totalPrice b
      \<and> status b \<in> set status_enum \<and> paymentStatus b \<in> set paymentStatus_enum
      \<and> maxlength 500 (specialRequests b) \<and> maxlength 500 (cancellationReason b))"

definition fresh_booking_id :: "booking_doc list \<Rightarrow> oid" where
  "fresh_booking_id bs = Suc (fold max (map booking_id bs) 0)"

text \<open>
  \<^verbatim>\<open>Booking.create\<close>: the \<^verbatim>\<open>pre('validate')\<close> hook of models/Booking.js runs first, then
  the schema validators; the document gets its \<^verbatim>\<open>_id\<close> and is inserted.
\<close>

definition Booking_create :: "state \<Rightarrow> booking_doc \<Rightarrow> fault + (booking_doc \<times> state)" where
  "Booking_create s b =
     (if checkOut b \<le> checkIn b then Inl (HookError ''Check-out date must be after check-in date'')
      else if \<not> booking_validators b then Inl ValidationError
      else
        (let b' = b\<lparr>booking_id := fresh_booking_id (bookings s)\<rparr>
         in Inr (b', s\<lparr>bookings := bookings s @ [b']\<rparr>)))"

section \<open>POST /api/bookings\<close>

text \<open>
  A date string of the request body: whether \<^verbatim>\<open>isISO8601()\<close> accepts it, and what
  \<^verbatim>\<open>new Date(...)\<close> makes of it (\<open>None\<close> is an Invalid Date).
\<close>

record date_string =
  isISO8601 :: bool
  new_Date :: "millis option"

record booking_body =
  body_property :: id_string
  body_checkIn :: date_string
  body_checkOut :: date_string
  body_guests :: "int option"
  body_specialRequests :: "string option"

definition isInt_min1 :: "int option \<Rightarrow> bool" where
  "isInt_min1 g = (case g of None \<Rightarrow> False | Some n \<Rightarrow> 1 \<le> n)"

definition validationResult :: "booking_body \<Rightarrow> string list" where
  "validationResult b =
     (if body_property b = Empty then [''Property ID is required''] else [])
     @ (if isISO8601 (body_checkIn b) then [] else [''Valid check-in date is required''])
     @ (if isISO8601 (body_checkOut b) then [] else [''Valid check-out date is required''])
     @ (if isInt_min1 (body_guests b) then [] else [''Number of guests must be at least 1''])"

text \<open>\<^verbatim>\<open>Math.ceil(n / d)\<close> on integers, for a divisor other than 0.\<close>

definition Math_ceil_div :: "int \<Rightarrow> int \<Rightarrow> int" where
  "Math_ceil_div n d = - ((- n) div d)"

definition one_day :: int where
  "one_day = 1000 * 60 * 60 * 24"

text \<open>The filter of the \<^verbatim>\<open>Booking.findOne\<close> that looks for a conflicting booking.\<close>

definition conflicts :: "oid \<Rightarrow> millis \<Rightarrow> millis \<Rightarrow> booking_doc \<Rightarrow> bool" where
  "conflicts pid checkInDate checkOutDate b =
     (property b = pid
      \<and> status b \<in> set [''pending'', ''confirmed'']
      \<and> checkIn b \<le> checkOutDate \<and> checkOut b \<ge> checkInDate)"

text \<open>
  The document handed to \<^verbatim>\<open>Booking.create\<close>: the fields the handler passes, the
  defaults of the schema for the others. A \<^verbatim>\<open>guests\<close> value that is no number
  cannot be cast.
\<close>

definition new_booking ::
    "oid \<Rightarrow> oid \<Rightarrow> millis \<Rightarrow> millis \<Rightarrow> int option \<Rightarrow> int \<Rightarrow> string option
     \<Rightarrow> fault + booking_doc" where
  "new_booking pid uid checkInDate checkOutDate g amount requests =
     (case g of
        None \<Rightarrow> Inl ValidationError
      | Some n \<Rightarrow>
          Inr \<lparr>booking_id = 0, property = pid, user = uid,
               checkIn = checkInDate, checkOut = checkOutDate,
               guests = n, totalPrice = amount,
               status = ''pending'', paymentStatus = ''pending'',
               specialRequests = requests,
               cancellationReason = None, cancelledAt = None\<rparr>)"

text \<open>The \<^verbatim>\<open>catch\<close> block of the handler.\<close>

definition create_booking_error :: "fault \<Rightarrow> state \<Rightarrow> response \<times> state" where
  "create_booking_error e s =
     (respond 500 False (Some (MessageOf e)) NoData, console_error ''Create booking error:'' e s)"

definition post_booking :: "state \<Rightarrow> user_doc \<Rightarrow> booking_body \<Rightarrow> response \<times> state" where
  "post_booking s u body =
     (let errors = validationResult body in
      if errors \<noteq> [] then
        (respond 400 False (Some (Literal ''Validation failed'')) (Errors errors), s)
      else
        (case Property_findById s (body_property body) of
           Inl e \<Rightarrow> create_booking_error e s
         | Inr None \<Rightarrow> (failure 404 ''Property not found'', s)
         | Inr (Some p) \<Rightarrow>
             if \<not> isAvailable p then
               (failure 400 ''Property is not available for booking'', s)
             else
               (case (new_Date (body_checkIn body), new_Date (body_checkOut body)) of
                  (Some checkInDate, Some checkOutDate) \<Rightarrow>
                    (case find (conflicts (property_id p) checkInDate checkOutDate) (bookings s) of
                       Some conflictingBooking \<Rightarrow>
                         (failure 400 ''Property is already booked for selected dates'', s)
                     | None \<Rightarrow>
                         (let days = Math_ceil_div (checkOutDate - checkInDate) one_day;
                              amount = price p * days
                          in case new_booking (property_id p) (user_id u) checkInDate checkOutDate
                                    (body_guests body) amount (body_specialRequests body) of
                               Inl e \<Rightarrow> create_booking_error e s
                             | Inr doc \<Rightarrow>
                                 (case Booking_create s doc of
                                    Inl e \<Rightarrow> create_booking_error e s
                                  | Inr (booking, s') \<Rightarrow>
                                      (respond 201 True
                                         (Some (Literal ''Booking created successfully''))
                                         (BookingData (Some booking)), s'))))
                | _ \<Rightarrow> create_booking_error CastError s)))"

section \<open>PUT /api/bookings/:id\<close>

text \<open>
  The fields of the request body the handler reads, each an optional string. A field is
  truthy when it is present and not the empty string.
\<close>

record update_body =
  body_status :: "string option"
  body_paymentStatus :: "string option"
  body_cancellationReason :: "string option"

definition truthy :: "string option \<Rightarrow> bool" where
  "truthy v = (case v of None \<Rightarrow> False | Some t \<Rightarrow> t \<noteq> [])"

text \<open>\<^verbatim>\<open>updateData\<close>: the paths the handler sets; \<open>None\<close> is a path it leaves out.\<close>

record update_data =
  set_status :: "string option"
  set_cancelledAt :: "millis option"
  set_cancellationReason :: "string option"
  set_paymentStatus :: "string option"

definition updateData :: "millis \<Rightarrow> bool \<Rightarrow> bool \<Rightarrow> update_body \<Rightarrow> update_data" where
  "updateData now isPropertyOwner isAdmin body =
     \<lparr>set_status = (if truthy (body_status body) then body_status body else None),
      set_cancelledAt =
        (if truthy (body_status body) \<and> body_status body = Some ''cancelled''
         then Some now else None),
      set_cancellationReason =
        (if truthy (body_status body) \<and> body_status body = Some ''cancelled''
            \<and> truthy (body_cancellationReason body)
         then body_cancellationReason body else None),
      set_paymentStatus =
        (if truthy (body_paymentStatus body) \<and> (isPropertyOwner \<or> isAdmin)
         then body_paymentStatus body else None)\<rparr>"

text \<open>\<^verbatim>\<open>runValidators: true\<close>: the validators of the paths the update sets.\<close>

definition update_validators :: "update_data \<Rightarrow> bool" where
  "update_validators d =
     ((case set_status d of None \<Rightarrow> True | Some v \<Rightarrow> v \<in> set status_enum)
      \<and> (case set_paymentStatus d of None \<Rightarrow> True | Some v \<Rightarrow> v \<in> set paymentStatus_enum)
      \<and> maxlength 500 (set_cancellationReason d))"

definition apply_update :: "update_data \<Rightarrow> booking_doc \<Rightarrow> booking_doc" where
  "apply_update d b =
     b\<lparr>status := (case set_status d of None \<Rightarrow> status b | Some v \<Rightarrow> v),
       cancelledAt := (case set_cancelledAt d of None \<Rightarrow> cancelledAt b | Some t \<Rightarrow> Some t),
       cancellationReason :=
         (case set_cancellationReason d of None \<Rightarrow> cancellationReason b | Some r \<Rightarrow> Some r),
       paymentStatus := (case set_paymentStatus d of None \<Rightarrow> paymentStatus b | Some v \<Rightarrow> v)\<rparr>"

text \<open>An update reaches the first document that matches, and no other.\<close>

fun update_first :: "('a \<Rightarrow> bool) \<Rightarrow> ('a \<Rightarrow> 'a) \<Rightarrow> 'a list \<Rightarrow> 'a list" where
  "update_first P f [] = []"
| "update_first P f (b # bs) = (if P b then f b # bs else b # update_first P f bs)"

text \<open>
  \<^verbatim>\<open>Booking.findByIdAndUpdate(id, updateData, { new: true, runValidators: true })\<close>: the
  updated document, or null when no document has the id.
\<close>

definition Booking_findByIdAndUpdate ::
    "state \<Rightarrow> id_string \<Rightarrow> update_data \<Rightarrow> fault + (booking_doc option \<times> state)" where
  "Booking_findByIdAndUpdate s i d =
     (case i of
        Ref k \<Rightarrow>
          if \<not> update_validators d then Inl ValidationError
          else
            (let bs = update_first (\<lambda>b. booking_id b = k) (apply_update d) (bookings s)
             in Inr (find (\<lambda>b. booking_id b = k) bs, s\<lparr>bookings := bs\<rparr>))
      | _ \<Rightarrow> Inl CastError)"

text \<open>The \<^verbatim>\<open>catch\<close> block of the handler.\<close>

definition update_booking_error :: "fault \<Rightarrow> state \<Rightarrow> response \<times> state" where
  "update_booking_error e s =
     (failure 500 ''Server error while updating booking'',
      console_error ''Update booking error:'' e s)"

text \<open>
  The handler. \<^verbatim>\<open>populate('property')\<close> leaves null for a property that is gone, and
  reading its \<^verbatim>\<open>owner\<close> throws. \<open>now\<close> is what \<^verbatim>\<open>new Date()\<close> returns.
\<close>

definition put_booking ::
    "millis \<Rightarrow> state \<Rightarrow> user_doc \<Rightarrow> id_string \<Rightarrow> update_body \<Rightarrow> response \<times> state" where
  "put_booking now s u i body =
     (case Booking_findById s i of
        Inl e \<Rightarrow> update_booking_error e s
      | Inr None \<Rightarrow> (failure 404 ''Booking not found'', s)
      | Inr (Some booking) \<Rightarrow>
          (case find (\<lambda>p. property_id p = property booking) (properties s) of
             None \<Rightarrow> update_booking_error TypeError s
           | Some p \<Rightarrow>
               (let isOwner = (user booking = user_id u);
                    isPropertyOwner = (owner p = user_id u);
                    isAdmin = (role u = ''admin'')
                in if \<not> isOwner \<and> \<not> isPropertyOwner \<and> \<not> isAdmin then
                     (failure 403 ''Not authorized to update this booking'', s)
                   else
                     (case Booking_findByIdAndUpdate s i
                             (updateData now isPropertyOwner isAdmin body) of
                        Inl e \<Rightarrow> update_booking_error e s
                      | Inr (updatedBooking, s') \<Rightarrow>
                          (respond 200 True (Some (Literal ''Booking updated successfully''))
                             (BookingData updatedBooking), s')))))"

text \<open>The fields of a booking that no update may touch.\<close>

definition fixed_fields ::
    "booking_doc \<Rightarrow> oid \<times> oid \<times> oid \<times> millis \<times> millis \<times> int \<times> int \<times> string option" where
  "fixed_fields b =
     (booking_id b, property b, user b, checkIn b, checkOut b, guests b, totalPrice b,
      specialRequests b)"

section \<open>GET /api/properties/:id\<close>





section \<open>GET /api/properties\<close>













section \<open>The asset store (config/cloudinary.js)\<close>

text \<open>
  \<^verbatim>\<open>USE_CLOUDINARY\<close> is fixed when the module is loaded. Whether the cloud host rejects
  the deletion of an asset is not decided by the handlers; the environment says so.
\<close>

record environment =
  USE_CLOUDINARY :: bool
  destroy_rejects :: "string \<Rightarrow> bool"

text \<open>
  \<^verbatim>\<open>cloudinary.uploader.destroy(id).catch(err => console.error(...))\<close>: a rejection is
  logged and goes no further.
\<close>

definition cloudinary_destroy :: "environment \<Rightarrow> string \<Rightarrow> state \<Rightarrow> state" where
  "cloudinary_destroy env public_id s =
     (if destroy_rejects env public_id
      then console_error ''Error deleting from Cloudinary:'' CloudinaryError s
      else s\<lparr>cloud := cloud s - {public_id}\<rparr>)"

text \<open>
  \<^verbatim>\<open>paths.forEach(p => { if (fs.existsSync(p)) fs.unlinkSync(p) })\<close>: the loop stops at
  the first path that cannot be unlinked, and what it removed before stays removed.
\<close>

fun unlink_all :: "string list \<Rightarrow> state \<Rightarrow> fault option \<times> state" where
  "unlink_all [] s = (None, s)"
| "unlink_all (p # ps) s =
     (case files s p of
        None \<Rightarrow> unlink_all ps s
      | Some RegularFile \<Rightarrow> unlink_all ps (s\<lparr>files := (files s)(p := None)\<rparr>)
      | Some Directory \<Rightarrow> (Some FsError, s))"

text \<open>
  Paths of the local store are written from the application root:
  \<^verbatim>\<open>path.join(__dirname, '..', imagePath)\<close> is the image path with its leading slash
  (dot segments are not resolved in the model).
\<close>

definition full_path :: "string \<Rightarrow> string" where
  "full_path imagePath =
     (case imagePath of
        [] \<Rightarrow> ''/''
      | c # cs \<Rightarrow> if c = CHR ''/'' then imagePath else CHR ''/'' # imagePath)"

definition folder_marker :: string where
  "folder_marker = ''/property-rental/properties/''"

text \<open>
  \<^verbatim>\<open>imageUrl.match(/\/property-rental\/properties\/([^/.]+)/)\<close>: the first place where
  the folder is followed by at least one character other than a slash and a dot; the
  group is the longest run of such characters.
\<close>

fun match_public_id :: "string \<Rightarrow> string option" where
  "match_public_id [] = None"
| "match_public_id (c # cs) =
     (if take (length folder_marker) (c # cs) = folder_marker
         \<and> takeWhile (\<lambda>x. x \<noteq> CHR ''/'' \<and> x \<noteq> CHR ''.'')
              (drop (length folder_marker) (c # cs)) \<noteq> []
      then Some (takeWhile (\<lambda>x. x \<noteq> CHR ''/'' \<and> x \<noteq> CHR ''.'')
                   (drop (length folder_marker) (c # cs)))
      else match_public_id cs)"

section \<open>DELETE /api/properties/:id\<close>

fun delete_first :: "('a \<Rightarrow> bool) \<Rightarrow> 'a list \<Rightarrow> 'a list" where
  "delete_first P [] = []"
| "delete_first P (x # xs) = (if P x then xs else x # delete_first P xs)"

definition Property_findByIdAndDelete :: "state \<Rightarrow> oid \<Rightarrow> state" where
  "Property_findByIdAndDelete s k =
     s\<lparr>properties := delete_first (\<lambda>p. property_id p = k) (properties s)\<rparr>"

text \<open>The deletion of the images of a property: what was thrown, if anything, and the state.\<close>

definition delete_images :: "environment \<Rightarrow> property_doc \<Rightarrow> state \<Rightarrow> fault option \<times> state" where
  "delete_images env p s =
     (if images p \<noteq> [] then
        (if USE_CLOUDINARY env then
           (None,
            fold (\<lambda>imageUrl s'.
                    case match_public_id imageUrl of
                      None \<Rightarrow> s'
                    | Some m \<Rightarrow> cloudinary_destroy env (''property-rental/properties/'' @ m) s')
              (images p) s)
         else unlink_all (map full_path (images p)) s)
      else (None, s))"

definition delete_property_error :: "fault \<Rightarrow> state \<Rightarrow> response \<times> state" where
  "delete_property_error e s =
     (failure 500 ''Server error while deleting property'',
      console_error ''Delete property error:'' e s)"

definition delete_property ::
    "environment \<Rightarrow> state \<Rightarrow> user_doc \<Rightarrow> id_string \<Rightarrow> response \<times> state" where
  "delete_property env s u i =
     (case Property_findById s i of
        Inl e \<Rightarrow> delete_property_error e s
      | Inr None \<Rightarrow> (failure 404 ''Property not found'', s)
      | Inr (Some p) \<Rightarrow>
          if owner p \<noteq> user_id u \<and> role u \<noteq> ''admin'' then
            (failure 403 ''Not authorized to delete this property'', s)
          else
            (case delete_images env p s of
               (Some e, s') \<Rightarrow> delete_property_error e s'
             | (None, s') \<Rightarrow>
                 (respond 200 True (Some (Literal ''Property deleted successfully'')) NoData,
                  Property_findByIdAndDelete s' (property_id p))))"

section \<open>POST /api/properties\<close>


text \<open>
  The price of the parsed JSON: absent (or falsy but the number 0), a number, a string
  that denotes a number, or a truthy value that \<^verbatim>\<open>isNaN\<close> rejects.
\<close>

datatype jprice = PAbsent | PNumber int | PNumeric int | PNotNumeric

























section \<open>Scenarios\<close>

text \<open>
  Concrete documents and requests on which the theorems below are run: a villa at 100 per
  night owned by user 10, a booking of it from 2024-01-01 to 2024-01-05 by user 20, and
  requests of user 21.
\<close>

definition jan :: "int \<Rightarrow> millis" where
  "jan n = 1704067200000 + (n - 1) * 86400000"

definition iso :: "millis \<Rightarrow> date_string" where
  "iso t = \<lparr>isISO8601 = True, new_Date = Some t\<rparr>"

definition villa :: property_doc where
  "villa = \<lparr>property_id = 1, title = ''Villa'', description = ''Sea view'', price = 100,
     address = ''1 Shore Road'', city = ''Goa'', country = ''India'', images = [],
     propertyType = ''villa'', bedrooms = Some 3, owner = 10, isAvailable = True,
     views = 0, createdAt = 1700000000000\<rparr>"

definition booking_A :: booking_doc where
  "booking_A = \<lparr>booking_id = 1, property = 1, user = 20, checkIn = jan 1, checkOut = jan 5,
     guests = 2, totalPrice = 400, status = ''pending'', paymentStatus = ''pending'',
     specialRequests = None, cancellationReason = None, cancelledAt = None\<rparr>"

definition db :: "property_doc list \<Rightarrow> booking_doc list \<Rightarrow> state" where
  "db ps bs = \<lparr>properties = ps, bookings = bs, files = (\<lambda>_. None), cloud = {}, console = []\<rparr>"

definition guest :: user_doc where
  "guest = \<lparr>user_id = 21, role = ''user''\<rparr>"

definition stay :: "millis \<Rightarrow> millis \<Rightarrow> booking_body" where
  "stay c d = \<lparr>body_property = Ref 1, body_checkIn = iso c, body_checkOut = iso d,
     body_guests = Some 2, body_specialRequests = None\<rparr>"

definition booker :: user_doc where
  "booker = \<lparr>user_id = 20, role = ''user''\<rparr>"

definition host :: user_doc where
  "host = \<lparr>user_id = 10, role = ''user''\<rparr>"

definition change :: "string option \<Rightarrow> string option \<Rightarrow> string option \<Rightarrow> update_body" where
  "change st pay why =
     \<lparr>body_status = st, body_paymentStatus = pay, body_cancellationReason = why\<rparr>"




text \<open>
  A cottage whose image list holds a file of the upload directory and the directory
  itself, as a creation request without files and with \<^verbatim>\<open>images\<close> in its JSON leaves it.
\<close>

definition cottage :: property_doc where
  "cottage = villa\<lparr>property_id := 2,
     images := [''/uploads/properties/a.jpg'', ''/uploads/properties'']\<rparr>"

definition local_env :: environment where
  "local_env = \<lparr>USE_CLOUDINARY = False, destroy_rejects = (\<lambda>_. False)\<rparr>"

definition cloud_env :: environment where
  "cloud_env = \<lparr>USE_CLOUDINARY = True, destroy_rejects = (\<lambda>_. False)\<rparr>"

definition disk :: "property_doc list \<Rightarrow> state" where
  "disk ps = \<lparr>properties = ps, bookings = [],
     files = [''/uploads/properties'' \<mapsto> Directory,
              ''/uploads/properties/a.jpg'' \<mapsto> RegularFile,
              ''/uploads/properties/b.jpg'' \<mapsto> RegularFile],
     cloud = {}, console = []\<rparr>"




section \<open>Arithmetic and store lemmas\<close>

lemma Math_ceil_div_ceiling:
  "Math_ceil_div n d = \<lceil>real_of_int n / real_of_int d\<rceil>"
proof -
  have "\<lfloor>real_of_int (- n) / real_of_int d\<rfloor> = (- n) div d"
    by (rule floor_divide_of_int_eq)
  then show ?thesis
    by (simp add: Math_ceil_div_def ceiling_def)
qed

lemma Math_ceil_div_nonneg: "0 \<le> n \<Longrightarrow> 0 < d \<Longrightarrow> 0 \<le> Math_ceil_div n d"
  by (simp add: Math_ceil_div_def div_nonpos_pos_le0)

lemma find_member_not_None:
  "a \<in> set bs \<Longrightarrow> P a \<Longrightarrow> find P bs \<noteq> None"
  by (auto simp: find_None_iff)

lemma Property_findById_Some:
  "Property_findById s i = Inr (Some p) \<Longrightarrow> i = Ref (property_id p)"
  by (auto simp: Property_findById_def find_Some_iff split: id_string.splits)

section \<open>Creating a booking\<close>

lemma post_booking_rejected_keeps_bookings:
  "success (fst (post_booking s u body)) = False
   \<Longrightarrow> bookings (snd (post_booking s u body)) = bookings s"
  by (auto simp: post_booking_def Let_def create_booking_error_def console_error_def
        failure_def respond_def
      split: sum.splits option.splits if_splits prod.splits)

lemma post_booking_at_conflict:
  assumes "validationResult body = []"
    and "Property_findById s (body_property body) = Inr (Some p)"
    and "isAvailable p"
    and "new_Date (body_checkIn body) = Some c"
    and "new_Date (body_checkOut body) = Some d"
    and "find (conflicts (property_id p) c d) (bookings s) \<noteq> None"
  shows "post_booking s u body = (failure 400 ''Property is already booked for selected dates'', s)"
  using assms by (auto simp: post_booking_def)

text \<open>
  Claim C1. Let \<open>a\<close> be a pending or confirmed booking of the property the request names,
  and let the requested dates \<open>[c, d]\<close> satisfy \<open>checkIn a \<le> d\<close> and \<open>checkOut a \<ge> c\<close>
  (touching boundaries included). Then the request is rejected, the bookings are what they
  were, \<open>a\<close> among them; and when the request gets as far as the conflict check (its fields
  are valid, the property exists and is available) the answer is the 400
  "Property is already booked for selected dates".
\<close>

theorem conflicting_dates_rejected:
  assumes "a \<in> set (bookings s)"
    and "status a = ''pending'' \<or> status a = ''confirmed''"
    and "body_property body = Ref (property a)"
    and "new_Date (body_checkIn body) = Some c"
    and "new_Date (body_checkOut body) = Some d"
    and "checkIn a \<le> d" and "checkOut a \<ge> c"
  shows "success (fst (post_booking s u body)) = False
     \<and> bookings (snd (post_booking s u body)) = bookings s
     \<and> a \<in> set (bookings (snd (post_booking s u body)))
     \<and> (validationResult body = []
          \<and> (\<exists>p. Property_findById s (body_property body) = Inr (Some p) \<and> isAvailable p)
         \<longrightarrow> post_booking s u body
              = (failure 400 ''Property is already booked for selected dates'', s))"
proof -
  have hit: "find (conflicts (property a) c d) (bookings s) \<noteq> None"
    using assms(1,2,6,7) by (intro find_member_not_None [of a]) (auto simp: conflicts_def)
  have main: "post_booking s u body
      = (failure 400 ''Property is already booked for selected dates'', s)"
    if "validationResult body = []"
      and "Property_findById s (body_property body) = Inr (Some p)" and "isAvailable p" for p
  proof -
    have "property_id p = property a"
      using Property_findById_Some [OF that(2)] assms(3) by simp
    with hit that assms(4,5) show ?thesis
      by (intro post_booking_at_conflict [of body s p c d]) simp_all
  qed
  have rejected: "success (fst (post_booking s u body)) = False"
    using hit assms(3,4,5)
    by (auto simp: post_booking_def Let_def create_booking_error_def failure_def respond_def
        dest!: Property_findById_Some split: sum.splits option.splits)
  from post_booking_rejected_keeps_bookings [OF rejected]
  have kept: "bookings (snd (post_booking s u body)) = bookings s" .
  from rejected kept assms(1) main show ?thesis by auto
qed

text \<open>
  The scenario of the specification: the villa is booked from January 1 to 5, and a
  request for January 4 to 8 is turned down. So is a request for January 5 to 8, which
  only touches the booking.
\<close>

theorem conflicting_dates_rejected_witness:
  "booking_A \<in> set (bookings (db [villa] [booking_A]))
   \<and> status booking_A = ''pending''
   \<and> checkIn booking_A \<le> jan 8 \<and> checkOut booking_A \<ge> jan 4 \<and> checkOut booking_A = jan 5
   \<and> validationResult (stay (jan 4) (jan 8)) = []
   \<and> validationResult (stay (jan 5) (jan 8)) = []
   \<and> Property_findById (db [villa] [booking_A]) (Ref 1) = Inr (Some villa)
   \<and> isAvailable villa
   \<and> post_booking (db [villa] [booking_A]) guest (stay (jan 4) (jan 8))
       = (failure 400 ''Property is already booked for selected dates'', db [villa] [booking_A])
   \<and> post_booking (db [villa] [booking_A]) guest (stay (jan 5) (jan 8))
       = (failure 400 ''Property is already booked for selected dates'', db [villa] [booking_A])"
  using conflicting_dates_rejected
    [of booking_A "db [villa] [booking_A]" "stay (jan 4) (jan 8)" "jan 4" "jan 8" guest]
    conflicting_dates_rejected
    [of booking_A "db [villa] [booking_A]" "stay (jan 5) (jan 8)" "jan 5" "jan 8" guest]
  by (simp add: db_def booking_A_def villa_def stay_def iso_def jan_def validationResult_def
      isInt_min1_def Property_findById_def)

lemma validationResult_guests:
  "validationResult body = [] \<Longrightarrow> \<exists>g. body_guests body = Some g \<and> 1 \<le> g"
  by (auto simp: validationResult_def isInt_min1_def split: if_splits option.splits)

lemma post_booking_created:
  assumes "validationResult body = []"
    and "Property_findById s (body_property body) = Inr (Some p)"
    and "isAvailable p" and "0 \<le> price p"
    and "new_Date (body_checkIn body) = Some c"
    and "new_Date (body_checkOut body) = Some d"
    and "c < d"
    and "find (conflicts (property_id p) c d) (bookings s) = None"
    and "maxlength 500 (body_specialRequests body)"
  shows "\<exists>b. post_booking s u body
           = (respond 201 True (Some (Literal ''Booking created successfully'')) (BookingData (Some b)),
              s\<lparr>bookings := bookings s @ [b]\<rparr>)
         \<and> totalPrice b = price p * Math_ceil_div (d - c) one_day
         \<and> status b = ''pending'' \<and> paymentStatus b = ''pending''
         \<and> property b = property_id p \<and> user b = user_id u
         \<and> checkIn b = c \<and> checkOut b = d"
proof -
  from validationResult_guests [OF assms(1)]
  obtain g where g: "body_guests body = Some g" "1 \<le> g" by blast
  have "0 \<le> Math_ceil_div (d - c) one_day"
    using assms(7) by (intro Math_ceil_div_nonneg) (simp_all add: one_day_def)
  with assms(4) have nonneg: "0 \<le> price p * Math_ceil_div (d - c) one_day"
    by simp
  show ?thesis
    using assms g nonneg
    by (auto simp: post_booking_def new_booking_def Booking_create_def booking_validators_def
        status_enum_def paymentStatus_enum_def maxlength_def Let_def)
qed

lemma post_booking_hook:
  assumes "validationResult body = []"
    and "Property_findById s (body_property body) = Inr (Some p)"
    and "isAvailable p"
    and "new_Date (body_checkIn body) = Some c"
    and "new_Date (body_checkOut body) = Some d"
    and "d \<le> c"
    and "find (conflicts (property_id p) c d) (bookings s) = None"
  shows "post_booking s u body
           = create_booking_error (HookError ''Check-out date must be after check-in date'') s"
proof -
  from validationResult_guests [OF assms(1)]
  obtain g where g: "body_guests body = Some g" "1 \<le> g" by blast
  show ?thesis
    using assms g
    by (simp add: post_booking_def new_booking_def Booking_create_def Let_def)
qed

lemma post_booking_no_201:
  assumes "new_Date (body_checkIn body) = Some c"
    and "new_Date (body_checkOut body) = Some d"
    and "d \<le> c"
  shows "success (fst (post_booking s u body)) = False"
  using assms
  by (auto simp: post_booking_def Let_def create_booking_error_def failure_def respond_def
        new_booking_def Booking_create_def
      split: sum.splits option.splits)

text \<open>
  Claim C2. A request with valid fields for an existing, available property (whose price
  is not negative, as the property schema demands), with check-out after check-in, special
  requests within 500 characters and no conflicting booking, is answered 201; the booking
  inserted has \<open>totalPrice = price \<times> \<lceil>(checkOut - checkIn) / 86400000\<rceil>\<close>, status pending and
  payment status pending.
\<close>

theorem created_booking_total_price:
  assumes "validationResult body = []"
    and "Property_findById s (body_property body) = Inr (Some p)"
    and "isAvailable p" and "0 \<le> price p"
    and "new_Date (body_checkIn body) = Some c"
    and "new_Date (body_checkOut body) = Some d"
    and "c < d"
    and "find (conflicts (property_id p) c d) (bookings s) = None"
    and "maxlength 500 (body_specialRequests body)"
  shows "\<exists>b. post_booking s u body
           = (respond 201 True (Some (Literal ''Booking created successfully''))
                (BookingData (Some b)),
              s\<lparr>bookings := bookings s @ [b]\<rparr>)
         \<and> totalPrice b = price p * \<lceil>real_of_int (d - c) / 86400000\<rceil>
         \<and> status b = ''pending'' \<and> paymentStatus b = ''pending''"
proof -
  from post_booking_created [OF assms, of u]
  obtain b where b: "post_booking s u body
           = (respond 201 True (Some (Literal ''Booking created successfully''))
                (BookingData (Some b)),
              s\<lparr>bookings := bookings s @ [b]\<rparr>)"
      "totalPrice b = price p * Math_ceil_div (d - c) one_day"
      "status b = ''pending''" "paymentStatus b = ''pending''"
    by blast
  have "Math_ceil_div (d - c) one_day = \<lceil>real_of_int (d - c) / 86400000\<rceil>"
    by (simp add: Math_ceil_div_ceiling one_day_def)
  with b show ?thesis by auto
qed

text \<open>The scenario of the specification: 100 per night, January 1 to 4, total 300.\<close>

theorem created_booking_total_price_witness:
  "validationResult (stay (jan 1) (jan 4)) = []
   \<and> Property_findById (db [villa] []) (body_property (stay (jan 1) (jan 4))) = Inr (Some villa)
   \<and> isAvailable villa \<and> price villa = 100
   \<and> new_Date (body_checkIn (stay (jan 1) (jan 4))) = Some 1704067200000
   \<and> new_Date (body_checkOut (stay (jan 1) (jan 4))) = Some 1704326400000
   \<and> find (conflicts (property_id villa) (jan 1) (jan 4)) (bookings (db [villa] [])) = None
   \<and> (\<exists>b. post_booking (db [villa] []) guest (stay (jan 1) (jan 4))
           = (respond 201 True (Some (Literal ''Booking created successfully''))
                (BookingData (Some b)),
              db [villa] [b])
         \<and> totalPrice b = 300
         \<and> status b = ''pending'' \<and> paymentStatus b = ''pending'')"
  using created_booking_total_price
    [of "stay (jan 1) (jan 4)" "db [villa] []" villa "jan 1" "jan 4" guest]
  by (simp add: db_def villa_def stay_def iso_def jan_def validationResult_def
      isInt_min1_def Property_findById_def maxlength_def)

text \<open>
  Claim C4 says that a request with check-out not after check-in is rejected before the
  date-conflict check. The handler looks for a conflicting booking first and reaches the
  \<^verbatim>\<open>pre('validate')\<close> hook only in \<^verbatim>\<open>Booking.create\<close>: the same request for January 4
  to January 4 is answered by the conflict check when the villa is booked then, and by the
  hook when it is not.
\<close>

theorem checkout_not_after_checkin_counterexample:
  "new_Date (body_checkOut (stay (jan 4) (jan 4))) = new_Date (body_checkIn (stay (jan 4) (jan 4)))
   \<and> post_booking (db [villa] [booking_A]) guest (stay (jan 4) (jan 4))
       = (failure 400 ''Property is already booked for selected dates'', db [villa] [booking_A])
   \<and> post_booking (db [villa] []) guest (stay (jan 4) (jan 4))
       = create_booking_error (HookError ''Check-out date must be after check-in date'')
           (db [villa] [])"
  by (simp add: post_booking_def db_def villa_def booking_A_def stay_def iso_def jan_def
      validationResult_def isInt_min1_def Property_findById_def conflicts_def
      new_booking_def Booking_create_def Let_def)

text \<open>
  Claim C4, amended. A request whose check-out is not after its check-in is always
  rejected and creates no booking; when its fields are valid, the property exists and is
  available and no booking conflicts, the rejection is the one of the schema hook, raised
  in \<^verbatim>\<open>Booking.create\<close>, after the conflict check. A request whose check-out is one
  millisecond after its check-in is accepted when its fields are valid, the property
  exists, is available and has a price that is not negative, and no booking conflicts.
\<close>

theorem checkout_not_after_checkin:
  assumes "new_Date (body_checkIn body) = Some c"
    and "new_Date (body_checkOut body) = Some d"
  shows "(d \<le> c \<longrightarrow>
            success (fst (post_booking s u body)) = False
            \<and> bookings (snd (post_booking s u body)) = bookings s
            \<and> (validationResult body = []
                 \<and> (\<exists>p. Property_findById s (body_property body) = Inr (Some p) \<and> isAvailable p
                        \<and> find (conflicts (property_id p) c d) (bookings s) = None)
                \<longrightarrow> post_booking s u body
                    = create_booking_error
                        (HookError ''Check-out date must be after check-in date'') s))
       \<and> (d = c + 1 \<and> validationResult body = []
            \<and> (\<exists>p. Property_findById s (body_property body) = Inr (Some p) \<and> isAvailable p
                   \<and> 0 \<le> price p
                   \<and> find (conflicts (property_id p) c d) (bookings s) = None)
            \<and> maxlength 500 (body_specialRequests body)
           \<longrightarrow> http_status (fst (post_booking s u body)) = 201
               \<and> (\<exists>b. bookings (snd (post_booking s u body)) = bookings s @ [b]
                      \<and> checkIn b = c \<and> checkOut b = c + 1))"
proof (intro conjI impI)
  assume le: "d \<le> c"
  from post_booking_no_201 [OF assms le]
  show rejected: "success (fst (post_booking s u body)) = False" .
  from post_booking_rejected_keeps_bookings [OF rejected]
  show "bookings (snd (post_booking s u body)) = bookings s" .
next
  assume le: "d \<le> c"
    and gates: "validationResult body = []
      \<and> (\<exists>p. Property_findById s (body_property body) = Inr (Some p) \<and> isAvailable p
             \<and> find (conflicts (property_id p) c d) (bookings s) = None)"
  then obtain p where "Property_findById s (body_property body) = Inr (Some p)"
      "isAvailable p" "find (conflicts (property_id p) c d) (bookings s) = None"
    by blast
  with gates assms le show "post_booking s u body
      = create_booking_error (HookError ''Check-out date must be after check-in date'') s"
    by (intro post_booking_hook [of body s p c d]) simp_all
next
  assume ok: "d = c + 1 \<and> validationResult body = []
      \<and> (\<exists>p. Property_findById s (body_property body) = Inr (Some p) \<and> isAvailable p
             \<and> 0 \<le> price p
             \<and> find (conflicts (property_id p) c d) (bookings s) = None)
      \<and> maxlength 500 (body_specialRequests body)"
  then obtain p where p: "Property_findById s (body_property body) = Inr (Some p)"
      "isAvailable p" "0 \<le> price p"
      "find (conflicts (property_id p) c d) (bookings s) = None"
    by blast
  from ok have "c < d" by simp
  from post_booking_created [OF _ p(1,2,3) assms this p(4), of u] ok
  obtain b where b: "post_booking s u body
           = (respond 201 True (Some (Literal ''Booking created successfully''))
                (BookingData (Some b)),
              s\<lparr>bookings := bookings s @ [b]\<rparr>)"
      "checkIn b = c" "checkOut b = d"
    by blast
  from b show "http_status (fst (post_booking s u body)) = 201"
    by (simp add: respond_def)
  from b ok show "\<exists>b. bookings (snd (post_booking s u body)) = bookings s @ [b]
      \<and> checkIn b = c \<and> checkOut b = c + 1"
    by auto
qed

theorem checkout_not_after_checkin_witness:
  "new_Date (body_checkIn (stay (jan 6) (jan 6))) = Some (jan 6)
   \<and> new_Date (body_checkOut (stay (jan 6) (jan 6))) = Some (jan 6)
   \<and> validationResult (stay (jan 6) (jan 6)) = []
   \<and> Property_findById (db [villa] [booking_A]) (Ref 1) = Inr (Some villa)
   \<and> isAvailable villa
   \<and> find (conflicts 1 (jan 6) (jan 6)) [booking_A] = None
   \<and> post_booking (db [villa] [booking_A]) guest (stay (jan 6) (jan 6))
       = create_booking_error (HookError ''Check-out date must be after check-in date'')
           (db [villa] [booking_A])
   \<and> http_status (fst (post_booking (db [villa] [booking_A]) guest (stay (jan 6) (jan 6 + 1)))) = 201"
  using checkout_not_after_checkin
    [of "stay (jan 6) (jan 6)" "jan 6" "jan 6" "db [villa] [booking_A]" guest]
    checkout_not_after_checkin
    [of "stay (jan 6) (jan 6 + 1)" "jan 6" "jan 6 + 1" "db [villa] [booking_A]" guest]
  by (simp add: db_def villa_def booking_A_def stay_def iso_def jan_def validationResult_def
      isInt_min1_def Property_findById_def conflicts_def maxlength_def)

section \<open>Updating a booking\<close>

lemma update_first_same: "(\<And>b. f b = b) \<Longrightarrow> update_first P f bs = bs"
  by (induction bs) auto

lemma map_update_first: "(\<And>b. g (f b) = g b) \<Longrightarrow> map g (update_first P f bs) = map g bs"
  by (induction bs) auto

lemma find_update_first:
  "find P bs = Some b \<Longrightarrow> P (f b) \<Longrightarrow> find P (update_first P f bs) = Some (f b)"
  by (induction bs) (auto split: if_splits)

lemma find_update_first_None:
  "find P bs = None \<Longrightarrow> update_first P f bs = bs"
  by (induction bs) (auto split: if_splits)

lemma booking_id_apply_update: "booking_id (apply_update d b) = booking_id b"
  by (simp add: apply_update_def)

lemma Booking_findById_Some:
  "Booking_findById s i = Inr (Some b) \<Longrightarrow>
     i = Ref (booking_id b) \<and> find (\<lambda>x. booking_id x = booking_id b) (bookings s) = Some b"
  by (auto simp: Booking_findById_def find_Some_iff split: id_string.splits)

lemma put_booking_keeps:
  assumes "\<And>d b. g (apply_update d b) = g b"
  shows "map g (bookings (snd (put_booking now s u i body))) = map g (bookings s)"
  using assms
  by (auto simp: put_booking_def update_booking_error_def console_error_def
        Booking_findByIdAndUpdate_def Let_def map_update_first
      split: sum.splits option.splits id_string.splits)

lemma put_booking_properties:
  "properties (snd (put_booking now s u i body)) = properties s"
  by (auto simp: put_booking_def update_booking_error_def console_error_def
        Booking_findByIdAndUpdate_def Let_def
      split: sum.splits option.splits id_string.splits)

lemma put_booking_authorized:
  assumes "Booking_findById s i = Inr (Some b)"
    and "find (\<lambda>p. property_id p = property b) (properties s) = Some p"
    and "user b = user_id u \<or> owner p = user_id u \<or> role u = ''admin''"
    and "d = updateData now (owner p = user_id u) (role u = ''admin'') body"
    and "update_validators d"
  shows "put_booking now s u i body
          = (respond 200 True (Some (Literal ''Booking updated successfully''))
               (BookingData (Some (apply_update d b))),
             s\<lparr>bookings :=
                 update_first (\<lambda>x. booking_id x = booking_id b) (apply_update d) (bookings s)\<rparr>)"
proof -
  from Booking_findById_Some [OF assms(1)]
  have i: "i = Ref (booking_id b)"
    and f: "find (\<lambda>x. booking_id x = booking_id b) (bookings s) = Some b"
    by simp_all
  have "find (\<lambda>x. booking_id x = booking_id b)
          (update_first (\<lambda>x. booking_id x = booking_id b) (apply_update d) (bookings s))
        = Some (apply_update d b)"
    using f by (rule find_update_first) (simp add: booking_id_apply_update)
  then show ?thesis
    using assms i
    by (auto simp: put_booking_def Booking_findByIdAndUpdate_def Let_def)
qed

lemma put_booking_authorized_lookup:
  assumes "Booking_findById s i = Inr (Some b)"
    and "find (\<lambda>p. property_id p = property b) (properties s) = Some p"
    and "user b = user_id u \<or> owner p = user_id u \<or> role u = ''admin''"
    and "d = updateData now (owner p = user_id u) (role u = ''admin'') body"
    and "update_validators d"
  shows "Booking_findById (snd (put_booking now s u i body)) i = Inr (Some (apply_update d b))"
proof -
  from Booking_findById_Some [OF assms(1)]
  have i: "i = Ref (booking_id b)"
    and f: "find (\<lambda>x. booking_id x = booking_id b) (bookings s) = Some b"
    by simp_all
  have "find (\<lambda>x. booking_id x = booking_id b)
          (update_first (\<lambda>x. booking_id x = booking_id b) (apply_update d) (bookings s))
        = Some (apply_update d b)"
    using f by (rule find_update_first) (simp add: booking_id_apply_update)
  moreover have "bookings (snd (put_booking now s u i body))
      = update_first (\<lambda>x. booking_id x = booking_id b) (apply_update d) (bookings s)"
    by (simp add: put_booking_authorized [OF assms])
  ultimately show ?thesis
    by (simp add: Booking_findById_def i)
qed

lemma put_booking_paymentStatus:
  assumes "\<And>b p. Booking_findById s i = Inr (Some b)
      \<Longrightarrow> find (\<lambda>p. property_id p = property b) (properties s) = Some p
      \<Longrightarrow> owner p \<noteq> user_id u \<and> role u \<noteq> ''admin''"
  shows "map paymentStatus (bookings (snd (put_booking now s u i body)))
         = map paymentStatus (bookings s)"
proof (cases "Booking_findById s i")
  case (Inl e)
  then show ?thesis
    by (simp add: put_booking_def update_booking_error_def console_error_def)
next
  case (Inr r)
  show ?thesis
  proof (cases r)
    case None
    with Inr show ?thesis by (simp add: put_booking_def)
  next
    case (Some b)
    show ?thesis
    proof (cases "find (\<lambda>p. property_id p = property b) (properties s)")
      case None
      with Inr Some show ?thesis
        by (simp add: put_booking_def update_booking_error_def console_error_def)
    next
      case (Some p)
      with Inr \<open>r = Some b\<close> assms [of b p]
      have "owner p \<noteq> user_id u" "role u \<noteq> ''admin''" by simp_all
      with Inr \<open>r = Some b\<close> Some show ?thesis
        by (auto simp: put_booking_def update_booking_error_def console_error_def
              Booking_findByIdAndUpdate_def Let_def map_update_first apply_update_def
              updateData_def
            split: sum.splits id_string.splits)
    qed
  qed
qed

text \<open>
  Claim C3. When the caller is the booking's own user and neither the owner of the
  property nor an admin, no request changes the payment status of any booking (the field
  is left out of the update), while a status of the schema's enumeration that the request
  supplies is applied (the cancellation reason, if any, within 500 characters). Whenever
  a request changes a payment status, the caller is the owner of the property or an admin.
\<close>

theorem payment_status_guarded:
  "(Booking_findById s i = Inr (Some b)
      \<and> find (\<lambda>p. property_id p = property b) (properties s) = Some p
      \<and> user b = user_id u \<and> owner p \<noteq> user_id u \<and> role u \<noteq> ''admin''
     \<longrightarrow> map paymentStatus (bookings (snd (put_booking now s u i body)))
           = map paymentStatus (bookings s)
         \<and> (body_status body = Some v \<and> v \<in> set status_enum
              \<and> maxlength 500 (body_cancellationReason body)
             \<longrightarrow> http_status (fst (put_booking now s u i body)) = 200
                 \<and> (\<exists>b'. Booking_findById (snd (put_booking now s u i body)) i = Inr (Some b')
                        \<and> status b' = v \<and> paymentStatus b' = paymentStatus b)))
   \<and> (map paymentStatus (bookings (snd (put_booking now s u i body)))
        \<noteq> map paymentStatus (bookings s)
       \<longrightarrow> (\<exists>b p. Booking_findById s i = Inr (Some b)
              \<and> find (\<lambda>p. property_id p = property b) (properties s) = Some p
              \<and> (owner p = user_id u \<or> role u = ''admin'')))"
proof (intro conjI impI)
  assume a: "Booking_findById s i = Inr (Some b)
      \<and> find (\<lambda>p. property_id p = property b) (properties s) = Some p
      \<and> user b = user_id u \<and> owner p \<noteq> user_id u \<and> role u \<noteq> ''admin''"
  then show "map paymentStatus (bookings (snd (put_booking now s u i body)))
       = map paymentStatus (bookings s)"
    by (intro put_booking_paymentStatus) auto
next
  assume a: "Booking_findById s i = Inr (Some b)
      \<and> find (\<lambda>p. property_id p = property b) (properties s) = Some p
      \<and> user b = user_id u \<and> owner p \<noteq> user_id u \<and> role u \<noteq> ''admin''"
    and v: "body_status body = Some v \<and> v \<in> set status_enum
      \<and> maxlength 500 (body_cancellationReason body)"
  define d where "d = updateData now (owner p = user_id u) (role u = ''admin'') body"
  from v have "v \<noteq> []" by (auto simp: status_enum_def)
  with a v have ok: "update_validators d"
    by (auto simp: d_def update_validators_def updateData_def truthy_def maxlength_def)
  have auth: "user b = user_id u \<or> owner p = user_id u \<or> role u = ''admin''"
    using a by simp
  from a have fb: "Booking_findById s i = Inr (Some b)"
    and fp: "find (\<lambda>p. property_id p = property b) (properties s) = Some p"
    by simp_all
  from put_booking_authorized [OF fb fp auth d_def ok]
  show "http_status (fst (put_booking now s u i body)) = 200"
    by (simp add: respond_def)
  have "status (apply_update d b) = v" "paymentStatus (apply_update d b) = paymentStatus b"
    using a v \<open>v \<noteq> []\<close> by (simp_all add: d_def apply_update_def updateData_def truthy_def)
  with put_booking_authorized_lookup [OF fb fp auth d_def ok]
  show "\<exists>b'. Booking_findById (snd (put_booking now s u i body)) i = Inr (Some b')
      \<and> status b' = v \<and> paymentStatus b' = paymentStatus b"
    by blast
next
  assume changed: "map paymentStatus (bookings (snd (put_booking now s u i body)))
      \<noteq> map paymentStatus (bookings s)"
  show "\<exists>b p. Booking_findById s i = Inr (Some b)
      \<and> find (\<lambda>p. property_id p = property b) (properties s) = Some p
      \<and> (owner p = user_id u \<or> role u = ''admin'')"
  proof (rule ccontr)
    assume "\<not> ?thesis"
    then have "map paymentStatus (bookings (snd (put_booking now s u i body)))
        = map paymentStatus (bookings s)"
      by (intro put_booking_paymentStatus) blast
    with changed show False by simp
  qed
qed

text \<open>
  The booker confirms the booking and tries to mark it paid: the status changes, the
  payment status does not. The host marks it paid.
\<close>

theorem payment_status_guarded_witness:
  "Booking_findById (db [villa] [booking_A]) (Ref 1) = Inr (Some booking_A)
   \<and> find (\<lambda>p. property_id p = property booking_A) [villa] = Some villa
   \<and> user booking_A = user_id booker \<and> owner villa = user_id host
   \<and> map paymentStatus (bookings (snd (put_booking 5 (db [villa] [booking_A]) booker (Ref 1)
         (change (Some ''confirmed'') (Some ''paid'') None)))) = [''pending'']
   \<and> map status (bookings (snd (put_booking 5 (db [villa] [booking_A]) booker (Ref 1)
         (change (Some ''confirmed'') (Some ''paid'') None)))) = [''confirmed'']
   \<and> http_status (fst (put_booking 5 (db [villa] [booking_A]) booker (Ref 1)
         (change (Some ''confirmed'') (Some ''paid'') None))) = 200
   \<and> map paymentStatus (bookings (snd (put_booking 5 (db [villa] [booking_A]) host (Ref 1)
         (change None (Some ''paid'') None)))) = [''paid'']"
  using payment_status_guarded
    [of "db [villa] [booking_A]" "Ref 1" booking_A villa booker 5
       "change (Some ''confirmed'') (Some ''paid'') None" "''confirmed''"]
    payment_status_guarded
    [of "db [villa] [booking_A]" "Ref 1" booking_A villa host 5
       "change None (Some ''paid'') None" "''confirmed''"]
  by (simp add: db_def villa_def booking_A_def booker_def host_def change_def
      Booking_findById_def put_booking_def Booking_findByIdAndUpdate_def updateData_def
      update_validators_def apply_update_def truthy_def status_enum_def paymentStatus_enum_def
      maxlength_def respond_def Let_def)

text \<open>
  Claim C7. An authorized request with status "cancelled" whose update passes the update
  validators (a payment status that is applied is one of the enumeration, a reason that
  is applied has at most 500 characters) is answered 200; the booking then has status
  cancelled, \<open>cancelledAt = now\<close> and, when a non-empty reason is supplied, that reason
  (its former reason otherwise). A request with any other status, or none, changes no
  \<open>cancelledAt\<close>.
\<close>

theorem cancel_stamps_cancelledAt:
  "(Booking_findById s i = Inr (Some b)
      \<and> find (\<lambda>p. property_id p = property b) (properties s) = Some p
      \<and> (user b = user_id u \<or> owner p = user_id u \<or> role u = ''admin'')
      \<and> body_status body = Some ''cancelled''
      \<and> update_validators (updateData now (owner p = user_id u) (role u = ''admin'') body)
     \<longrightarrow> http_status (fst (put_booking now s u i body)) = 200
         \<and> (\<exists>b'. Booking_findById (snd (put_booking now s u i body)) i = Inr (Some b')
                \<and> status b' = ''cancelled'' \<and> cancelledAt b' = Some now
                \<and> cancellationReason b'
                    = (if truthy (body_cancellationReason body)
                       then body_cancellationReason body else cancellationReason b)))
   \<and> (body_status body \<noteq> Some ''cancelled''
       \<longrightarrow> map cancelledAt (bookings (snd (put_booking now s u i body)))
           = map cancelledAt (bookings s))"
proof (intro conjI impI)
  assume a: "Booking_findById s i = Inr (Some b)
      \<and> find (\<lambda>p. property_id p = property b) (properties s) = Some p
      \<and> (user b = user_id u \<or> owner p = user_id u \<or> role u = ''admin'')
      \<and> body_status body = Some ''cancelled''
      \<and> update_validators (updateData now (owner p = user_id u) (role u = ''admin'') body)"
  define d where "d = updateData now (owner p = user_id u) (role u = ''admin'') body"
  from a have fb: "Booking_findById s i = Inr (Some b)"
    and fp: "find (\<lambda>p. property_id p = property b) (properties s) = Some p"
    and auth: "user b = user_id u \<or> owner p = user_id u \<or> role u = ''admin''"
    and ok: "update_validators d"
    by (simp_all add: d_def)
  from put_booking_authorized [OF fb fp auth d_def ok]
  show "http_status (fst (put_booking now s u i body)) = 200"
    by (simp add: respond_def)
  have "status (apply_update d b) = ''cancelled''"
    "cancelledAt (apply_update d b) = Some now"
    "cancellationReason (apply_update d b)
      = (if truthy (body_cancellationReason body)
         then body_cancellationReason body else cancellationReason b)"
    using a by (auto simp: d_def apply_update_def updateData_def truthy_def split: option.splits)
  with put_booking_authorized_lookup [OF fb fp auth d_def ok]
  show "\<exists>b'. Booking_findById (snd (put_booking now s u i body)) i = Inr (Some b')
      \<and> status b' = ''cancelled'' \<and> cancelledAt b' = Some now
      \<and> cancellationReason b'
          = (if truthy (body_cancellationReason body)
             then body_cancellationReason body else cancellationReason b)"
    by blast
next
  assume other: "body_status body \<noteq> Some ''cancelled''"
  have "cancelledAt (apply_update (updateData now o' a' body) x) = cancelledAt x" for o' a' x
    using other by (simp add: apply_update_def updateData_def)
  then show "map cancelledAt (bookings (snd (put_booking now s u i body)))
      = map cancelledAt (bookings s)"
    by (auto simp: put_booking_def update_booking_error_def console_error_def
          Booking_findByIdAndUpdate_def Let_def map_update_first
        split: sum.splits option.splits id_string.splits)
qed

text \<open>
  The booker cancels on January 2: the stamp and the reason are recorded. Confirming
  instead leaves \<open>cancelledAt\<close> unset.
\<close>

theorem cancel_stamps_cancelledAt_witness:
  "Booking_findById (db [villa] [booking_A]) (Ref 1) = Inr (Some booking_A)
   \<and> find (\<lambda>p. property_id p = property booking_A) [villa] = Some villa
   \<and> user booking_A = user_id booker
   \<and> update_validators (updateData 1704153600000 False False
         (change (Some ''cancelled'') None (Some ''Plans changed'')))
   \<and> bookings (snd (put_booking 1704153600000 (db [villa] [booking_A]) booker (Ref 1)
         (change (Some ''cancelled'') None (Some ''Plans changed''))))
       = [booking_A\<lparr>status := ''cancelled'', cancelledAt := Some 1704153600000,
            cancellationReason := Some ''Plans changed''\<rparr>]
   \<and> http_status (fst (put_booking 1704153600000 (db [villa] [booking_A]) booker (Ref 1)
         (change (Some ''cancelled'') None (Some ''Plans changed'')))) = 200
   \<and> map cancelledAt (bookings (snd (put_booking 1704153600000 (db [villa] [booking_A]) booker
         (Ref 1) (change (Some ''confirmed'') None (Some ''Plans changed''))))) = [None]"
  using cancel_stamps_cancelledAt
    [of "db [villa] [booking_A]" "Ref 1" booking_A villa booker
       "change (Some ''cancelled'') None (Some ''Plans changed'')" 1704153600000]
    cancel_stamps_cancelledAt
    [of "db [villa] [booking_A]" "Ref 1" booking_A villa booker
       "change (Some ''confirmed'') None (Some ''Plans changed'')" 1704153600000]
  by (simp add: db_def villa_def booking_A_def booker_def change_def
      Booking_findById_def put_booking_def Booking_findByIdAndUpdate_def updateData_def
      update_validators_def apply_update_def truthy_def status_enum_def paymentStatus_enum_def
      maxlength_def respond_def Let_def)

lemma apply_update_nothing:
  "set_status d = None \<Longrightarrow> set_cancelledAt d = None \<Longrightarrow> set_cancellationReason d = None
   \<Longrightarrow> set_paymentStatus d = None \<Longrightarrow> apply_update d b = b"
  by (simp add: apply_update_def)

text \<open>
  Claim C10. Whatever the request, the fields \<open>_id\<close>, property, user, checkIn, checkOut,
  guests, totalPrice and specialRequests of every booking are what they were, and so are
  the properties; the payment statuses are what they were when the caller is neither the
  owner of the property nor an admin. An authorized request with neither a status nor a
  payment status is answered 200 with the booking, and the state is unchanged.
\<close>

theorem update_touches_four_fields:
  "map fixed_fields (bookings (snd (put_booking now s u i body))) = map fixed_fields (bookings s)
   \<and> properties (snd (put_booking now s u i body)) = properties s
   \<and> (Booking_findById s i = Inr (Some b)
        \<and> find (\<lambda>p. property_id p = property b) (properties s) = Some p
        \<and> owner p \<noteq> user_id u \<and> role u \<noteq> ''admin''
       \<longrightarrow> map paymentStatus (bookings (snd (put_booking now s u i body)))
           = map paymentStatus (bookings s))
   \<and> (Booking_findById s i = Inr (Some b)
        \<and> find (\<lambda>p. property_id p = property b) (properties s) = Some p
        \<and> (user b = user_id u \<or> owner p = user_id u \<or> role u = ''admin'')
        \<and> \<not> truthy (body_status body) \<and> \<not> truthy (body_paymentStatus body)
       \<longrightarrow> put_booking now s u i body
           = (respond 200 True (Some (Literal ''Booking updated successfully''))
                (BookingData (Some b)), s))"
proof (intro conjI impI)
  show "map fixed_fields (bookings (snd (put_booking now s u i body)))
      = map fixed_fields (bookings s)"
    by (rule put_booking_keeps) (simp add: fixed_fields_def apply_update_def)
  show "properties (snd (put_booking now s u i body)) = properties s"
    by (rule put_booking_properties)
next
  assume "Booking_findById s i = Inr (Some b)
      \<and> find (\<lambda>p. property_id p = property b) (properties s) = Some p
      \<and> owner p \<noteq> user_id u \<and> role u \<noteq> ''admin''"
  then show "map paymentStatus (bookings (snd (put_booking now s u i body)))
      = map paymentStatus (bookings s)"
    by (intro put_booking_paymentStatus) auto
next
  assume a: "Booking_findById s i = Inr (Some b)
      \<and> find (\<lambda>p. property_id p = property b) (properties s) = Some p
      \<and> (user b = user_id u \<or> owner p = user_id u \<or> role u = ''admin'')
      \<and> \<not> truthy (body_status body) \<and> \<not> truthy (body_paymentStatus body)"
  define d where "d = updateData now (owner p = user_id u) (role u = ''admin'') body"
  from a have fb: "Booking_findById s i = Inr (Some b)"
    and fp: "find (\<lambda>p. property_id p = property b) (properties s) = Some p"
    and auth: "user b = user_id u \<or> owner p = user_id u \<or> role u = ''admin''"
    by simp_all
  from a have none: "set_status d = None" "set_cancelledAt d = None"
      "set_cancellationReason d = None" "set_paymentStatus d = None"
    by (simp_all add: d_def updateData_def)
  then have ok: "update_validators d"
    by (simp add: update_validators_def maxlength_def)
  have same: "apply_update d x = x" for x
    using none by (rule apply_update_nothing)
  then have "update_first P (apply_update d) xs = xs" for P xs
    by (intro update_first_same)
  with put_booking_authorized [OF fb fp auth d_def ok] same
  show "put_booking now s u i body
      = (respond 200 True (Some (Literal ''Booking updated successfully''))
           (BookingData (Some b)), s)"
    by simp
qed

text \<open>
  A body with a cancellation reason only: nothing changes.
\<close>

theorem update_touches_four_fields_witness:
  "Booking_findById (db [villa] [booking_A]) (Ref 1) = Inr (Some booking_A)
   \<and> find (\<lambda>p. property_id p = property booking_A) [villa] = Some villa
   \<and> user booking_A = user_id booker
   \<and> \<not> truthy (body_status (change None None (Some ''Plans changed'')))
   \<and> \<not> truthy (body_paymentStatus (change None None (Some ''Plans changed'')))
   \<and> owner villa \<noteq> user_id booker \<and> role booker \<noteq> ''admin''
   \<and> put_booking 7 (db [villa] [booking_A]) booker (Ref 1) (change None None (Some ''Plans changed''))
       = (respond 200 True (Some (Literal ''Booking updated successfully''))
            (BookingData (Some booking_A)), db [villa] [booking_A])"
  using update_touches_four_fields
    [of 7 "db [villa] [booking_A]" booker "Ref 1" "change None None (Some ''Plans changed'')"
       booking_A villa]
  by (simp add: db_def villa_def booking_A_def booker_def change_def
      Booking_findById_def truthy_def)

section \<open>Reading properties\<close>













section \<open>Creating and deleting properties\<close>

lemma properties_fold:
  "(\<And>x t. properties (f x t) = properties t) \<Longrightarrow> properties (fold f xs s) = properties s"
  by (induction xs arbitrary: s) simp_all

lemma properties_cloudinary_destroy [simp]:
  "properties (cloudinary_destroy env i s) = properties s"
  by (simp add: cloudinary_destroy_def console_error_def)










text \<open>
  With the cloud host, the deletion of a property by its owner or an admin goes through
  whatever the host answers to the deletion of the images.
\<close>

lemma delete_property_cloudinary:
  assumes "USE_CLOUDINARY env"
    and "Property_findById s i = Inr (Some p)"
    and "owner p = user_id u \<or> role u = ''admin''"
  shows "fst (delete_property env s u i)
           = respond 200 True (Some (Literal ''Property deleted successfully'')) NoData
         \<and> properties (snd (delete_property env s u i))
           = delete_first (\<lambda>q. property_id q = property_id p) (properties s)"
proof -
  have "properties
          (fold (\<lambda>imageUrl s'.
                   case match_public_id imageUrl of
                     None \<Rightarrow> s'
                   | Some m \<Rightarrow> cloudinary_destroy env (''property-rental/properties/'' @ m) s')
             (images p) s) = properties s"
    by (rule properties_fold) (simp split: option.splits)
  with assms show ?thesis
    by (auto simp: delete_property_def delete_images_def Property_findByIdAndDelete_def)
qed

text \<open>
  Claim C5, on the local store. The owner of the cottage deletes it. The first image is
  unlinked, \<^verbatim>\<open>unlinkSync\<close> throws on the second (a directory), the handler's \<^verbatim>\<open>catch\<close>
  answers 500 and \<^verbatim>\<open>Property.findByIdAndDelete\<close> is never reached: the cottage is still
  in the database.
\<close>

theorem local_cleanup_blocks_deletion:
  "Property_findById (disk [cottage]) (Ref 2) = Inr (Some cottage)
   \<and> owner cottage = user_id host
   \<and> delete_property local_env (disk [cottage]) host (Ref 2)
       = (failure 500 ''Server error while deleting property'',
          (disk [cottage])
            \<lparr>files := [''/uploads/properties'' \<mapsto> Directory,
                       ''/uploads/properties/b.jpg'' \<mapsto> RegularFile],
             console := [(''Delete property error:'', FsError)]\<rparr>)
   \<and> Property_findById (snd (delete_property local_env (disk [cottage]) host (Ref 2))) (Ref 2)
       = Inr (Some cottage)"
  by (simp add: delete_property_def delete_images_def delete_property_error_def
      console_error_def failure_def respond_def full_path_def Property_findById_def
      disk_def cottage_def villa_def host_def local_env_def fun_eq_iff)

end
